theory Spec2Isabelle
  imports Complex_Main
begin

section \<open>Python values\<close>

text \<open>
  The payloads of the client are the values that \<^verbatim>\<open>json.loads\<close> and
  \<^verbatim>\<open>response.json()\<close> produce: \<^verbatim>\<open>None\<close>, booleans, unbounded integers, floats,
  strings, lists and dictionaries with string keys. A dictionary is kept as an association
  list in insertion order and is read with \<open>map_of\<close>. A float is a rational or one of the
  three special values that \<^verbatim>\<open>json.loads\<close> accepts; only its truth value is ever used.
\<close>

datatype pyfloat = Finite rat | PosInf | NegInf | NaN

datatype json =
    JNull
  | JBool bool
  | JInt int
  | JFloat pyfloat
  | JStr string
  | JArr "json list"
  | JObj "(string \<times> json) list"

text \<open>Python's truth value of an object, as \<^verbatim>\<open>if x:\<close> and \<^verbatim>\<open>x and y\<close> test it.\<close>

fun truthy :: "json \<Rightarrow> bool" where
  "truthy JNull = False"
| "truthy (JBool b) = b"
| "truthy (JInt i) = (i \<noteq> 0)"
| "truthy (JFloat f) = (f \<noteq> Finite 0)"
| "truthy (JStr s) = (s \<noteq> [])"
| "truthy (JArr xs) = (xs \<noteq> [])"
| "truthy (JObj kvs) = (kvs \<noteq> [])"

text \<open>
  The exceptions the code raises, catches or lets through. \<open>HTTPError\<close> carries the status
  code and the text of \<^verbatim>\<open>e.response\<close>; \<open>RequestException\<close> stands for every other
  exception of the hierarchy of \<^verbatim>\<open>requests.exceptions.RequestException\<close> and carries
  \<^verbatim>\<open>str(e)\<close>, as \<open>JSONDecodeError\<close> (of the \<^verbatim>\<open>json\<close> module) does.
\<close>

datatype pyexn =
    HTTPError int string
  | RequestException string
  | JSONDecodeError string
  | AttributeError
  | TypeError
  | KeyError string
  | ValueError string
  | RecursionError
  | UnicodeDecodeError
  | OtherException string

text \<open>Decimal digits of an integer, as \<^verbatim>\<open>str\<close> and an f-string print it.\<close>

fun str_nat :: "nat \<Rightarrow> string" where
  "str_nat n =
     (if n < 10 then [''0123456789'' ! n]
      else str_nat (n div 10) @ [''0123456789'' ! (n mod 10)])"

definition str_int :: "int \<Rightarrow> string" where
  "str_int i = (if i < 0 then ''-'' @ str_nat (nat (- i)) else str_nat (nat i))"

text \<open>
  \<^verbatim>\<open>str(v)\<close>, which an f-string applies to \<^verbatim>\<open>{v}\<close>. A string is itself; a float, a list
  and a dictionary are formatted by the interpreter's \<^verbatim>\<open>repr\<close>, which is the
  parameter \<open>fmt\<close>.
\<close>

fun py_str :: "(json \<Rightarrow> string) \<Rightarrow> json \<Rightarrow> string" where
  "py_str fmt (JStr s) = s"
| "py_str fmt JNull = ''None''"
| "py_str fmt (JBool b) = (if b then ''True'' else ''False'')"
| "py_str fmt (JInt i) = str_int i"
| "py_str fmt v = fmt v"

section \<open>The observable world\<close>

text \<open>
  What the code does to its surroundings, in call order: the lines given to \<^verbatim>\<open>print\<close>,
  the calls of \<^verbatim>\<open>session.request\<close> (method, URL and the session's headers at the time
  of the call), the frames given to \<^verbatim>\<open>ws.send\<close> and the durations given to
  \<^verbatim>\<open>time.sleep\<close>.
\<close>

record world =
  stdout :: "string list"
  requested :: "(string \<times> string \<times> (string \<rightharpoonup> string)) list"
  sent :: "string list"
  slept :: "int list"

definition print :: "string \<Rightarrow> world \<Rightarrow> world" where
  "print line w = w\<lparr>stdout := stdout w @ [line]\<rparr>"

section \<open>The HTTP client\<close>

record APIConfig =
  base_url :: string
  ws_url :: string
  timeout :: int

definition APIConfig_default :: APIConfig where
  "APIConfig_default =
     \<lparr>base_url = ''http://localhost:3001'', ws_url = ''ws://localhost:3001/ws'', timeout = 10\<rparr>"

text \<open>
  A \<^verbatim>\<open>requests.Session\<close>, as far as the client touches it: its default headers and
  the \<^verbatim>\<open>timeout\<close> attribute the constructor sets.
\<close>

record Session =
  headers :: "string \<rightharpoonup> string"
  session_timeout :: "int option"

text \<open>
  A \<^verbatim>\<open>requests.Response\<close>: \<^verbatim>\<open>status_code\<close>, \<^verbatim>\<open>text\<close>, and what calling
  \<^verbatim>\<open>json()\<close> on it does (the parsed body, or the exception raised for a body that is
  not JSON).
\<close>

record Response =
  status_code :: int
  resp_text :: string
  json_result :: "pyexn + json"

record MemeCoinAnalyzerAPI =
  config :: APIConfig
  token :: json
  session :: Session

text \<open>
  \<^verbatim>\<open>Response.raise_for_status\<close> of the \<^verbatim>\<open>requests\<close> library raises \<open>HTTPError\<close>
  for a client error (400 to 499) and a server error (500 to 599) and returns for every
  other status code.
\<close>

definition raise_for_status :: "Response \<Rightarrow> pyexn option" where
  "raise_for_status response =
     (if 400 \<le> status_code response \<and> status_code response < 600
      then Some (HTTPError (status_code response) (resp_text response))
      else None)"

definition set_token :: "(json \<Rightarrow> string) \<Rightarrow> MemeCoinAnalyzerAPI \<Rightarrow> json \<Rightarrow> MemeCoinAnalyzerAPI" where
  "set_token fmt self tok =
     self\<lparr>token := tok,
          session := (session self)\<lparr>headers :=
            (headers (session self))(''Authorization'' \<mapsto> ''Bearer '' @ py_str fmt tok)\<rparr>\<rparr>"

text \<open>
  The constructor. \<open>defaults\<close> are the headers a new \<^verbatim>\<open>requests.Session()\<close> starts
  with; \<open>cfg = None\<close> and \<open>tok = JNull\<close> are the default arguments \<^verbatim>\<open>None\<close>.
\<close>

definition init :: "(json \<Rightarrow> string) \<Rightarrow> (string \<rightharpoonup> string) \<Rightarrow> APIConfig option \<Rightarrow> json
    \<Rightarrow> MemeCoinAnalyzerAPI" where
  "init fmt defaults cfg tok =
     (let config0 = (case cfg of Some c \<Rightarrow> c | None \<Rightarrow> APIConfig_default);
          session0 = \<lparr>headers = defaults, session_timeout = None\<rparr>;
          session1 = session0\<lparr>session_timeout := Some (timeout config0)\<rparr>;
          session2 = session1\<lparr>headers := (headers session1)
                       (''Content-Type'' \<mapsto> ''application/json'',
                        ''User-Agent'' \<mapsto> ''MemeCoinAnalyzer-Python-Client/1.0'')\<rparr>;
          self = \<lparr>config = config0, token = tok, session = session2\<rparr>
      in if truthy tok then set_token fmt self tok else self)"

text \<open>
  \<^verbatim>\<open>_make_request\<close>. The parameter \<open>request\<close> is \<^verbatim>\<open>session.request\<close>: the network's
  answer to a call, a response or an exception. The body of the \<^verbatim>\<open>try\<close> is
  \<open>try_request\<close>. The two \<^verbatim>\<open>except\<close> clauses match by class, \<open>HTTPError\<close>
  first, then every other \<open>RequestException\<close>; each prints and re-raises, and an
  exception of another class passes through.
\<close>

definition try_request :: "(Session \<Rightarrow> string \<Rightarrow> string \<Rightarrow> 'kw \<Rightarrow> pyexn + Response)
    \<Rightarrow> MemeCoinAnalyzerAPI \<Rightarrow> string \<Rightarrow> string \<Rightarrow> 'kw \<Rightarrow> pyexn + json" where
  "try_request request self method url kwargs =
     (case request (session self) method url kwargs of
        Inl e \<Rightarrow> Inl e
      | Inr response \<Rightarrow>
          (case raise_for_status response of
             Some e \<Rightarrow> Inl e
           | None \<Rightarrow> json_result response))"

definition make_request :: "(Session \<Rightarrow> string \<Rightarrow> string \<Rightarrow> 'kw \<Rightarrow> pyexn + Response)
    \<Rightarrow> MemeCoinAnalyzerAPI \<Rightarrow> string \<Rightarrow> string \<Rightarrow> 'kw \<Rightarrow> world \<Rightarrow> (pyexn + json) \<times> world" where
  "make_request request self method endpoint kwargs w =
     (let url = base_url (config self) @ endpoint;
          w1 = w\<lparr>requested := requested w @ [(method, url, headers (session self))]\<rparr>
      in case try_request request self method url kwargs of
           Inr body \<Rightarrow> (Inr body, w1)
         | Inl e \<Rightarrow>
             (case e of
                HTTPError code txt \<Rightarrow>
                  (Inl e, print (''HTTP Error '' @ str_int code @ '': '' @ txt) w1)
              | RequestException msg \<Rightarrow>
                  (Inl e, print (''Request Error: '' @ msg) w1)
              | _ \<Rightarrow> (Inl e, w1)))"

text \<open>
  An answer of \<^verbatim>\<open>session.request\<close> that is a response on which
  \<^verbatim>\<open>raise_for_status\<close> does not raise and whose \<^verbatim>\<open>json()\<close> returns
  \<open>body\<close>. A response without an error status whose body is not JSON is not of this
  kind: \<^verbatim>\<open>json()\<close> raises on it.
\<close>

definition success_with_body :: "pyexn + Response \<Rightarrow> json \<Rightarrow> bool" where
  "success_with_body answer body =
     (case answer of
        Inl e \<Rightarrow> False
      | Inr response \<Rightarrow> raise_for_status response = None \<and> json_result response = Inr body)"

text \<open>
  The keyword arguments the methods of the class pass on: none, \<^verbatim>\<open>json=\<close> or
  \<^verbatim>\<open>params=\<close>.
\<close>

datatype kwargs = no_kwargs | json_kwarg json | params_kwarg "(string \<times> json) list"

type_synonym transport = "Session \<Rightarrow> string \<Rightarrow> string \<Rightarrow> kwargs \<Rightarrow> pyexn + Response"

text \<open>\<^verbatim>\<open>d.get(k)\<close> on a dictionary, and \<^verbatim>\<open>v[k]\<close> with a string \<open>k\<close> on any value.\<close>

definition dict_get :: "(string \<times> json) list \<Rightarrow> string \<Rightarrow> json" where
  "dict_get kvs k = (case map_of kvs k of None \<Rightarrow> JNull | Some v \<Rightarrow> v)"

fun subscript :: "json \<Rightarrow> string \<Rightarrow> pyexn + json" where
  "subscript (JObj kvs) k = (case map_of kvs k of None \<Rightarrow> Inl (KeyError k) | Some v \<Rightarrow> Inr v)"
| "subscript v k = Inl TypeError"

subsection \<open>Authentication methods\<close>

definition register :: "transport \<Rightarrow> (json \<Rightarrow> string) \<Rightarrow> MemeCoinAnalyzerAPI \<Rightarrow> json \<Rightarrow> world
    \<Rightarrow> (pyexn + json) \<times> MemeCoinAnalyzerAPI \<times> world" where
  "register request fmt self user_data w =
     (case make_request request self ''POST'' ''/api/v1/auth/register'' (json_kwarg user_data) w of
        (Inl e, w1) \<Rightarrow> (Inl e, self, w1)
      | (Inr result, w1) \<Rightarrow>
          (case result of
             JObj kvs \<Rightarrow>
               if truthy (dict_get kvs ''success'') \<and> map_of kvs ''data'' \<noteq> None
               then (case subscript result ''data'' of
                       Inl e \<Rightarrow> (Inl e, self, w1)
                     | Inr d \<Rightarrow>
                         (case subscript d ''token'' of
                            Inl e \<Rightarrow> (Inl e, self, w1)
                          | Inr tok \<Rightarrow> (Inr result, set_token fmt self tok, w1)))
               else (Inr result, self, w1)
           | _ \<Rightarrow> (Inl AttributeError, self, w1)))"

definition login :: "transport \<Rightarrow> (json \<Rightarrow> string) \<Rightarrow> MemeCoinAnalyzerAPI \<Rightarrow> string \<Rightarrow> string \<Rightarrow> world
    \<Rightarrow> (pyexn + json) \<times> MemeCoinAnalyzerAPI \<times> world" where
  "login request fmt self email password w =
     (case make_request request self ''POST'' ''/api/v1/auth/login''
             (json_kwarg (JObj [(''email'', JStr email), (''password'', JStr password)])) w of
        (Inl e, w1) \<Rightarrow> (Inl e, self, w1)
      | (Inr result, w1) \<Rightarrow>
          (case result of
             JObj kvs \<Rightarrow>
               if truthy (dict_get kvs ''success'') \<and> map_of kvs ''data'' \<noteq> None
               then (case subscript result ''data'' of
                       Inl e \<Rightarrow> (Inl e, self, w1)
                     | Inr d \<Rightarrow>
                         (case subscript d ''token'' of
                            Inl e \<Rightarrow> (Inl e, self, w1)
                          | Inr tok \<Rightarrow> (Inr result, set_token fmt self tok, w1)))
               else (Inr result, self, w1)
           | _ \<Rightarrow> (Inl AttributeError, self, w1)))"

definition get_profile :: "transport \<Rightarrow> MemeCoinAnalyzerAPI \<Rightarrow> world \<Rightarrow> (pyexn + json) \<times> world" where
  "get_profile request self w = make_request request self ''GET'' ''/api/v1/auth/profile'' no_kwargs w"

definition update_preferences :: "transport \<Rightarrow> MemeCoinAnalyzerAPI \<Rightarrow> json \<Rightarrow> world
    \<Rightarrow> (pyexn + json) \<times> world" where
  "update_preferences request self preferences w =
     make_request request self ''PUT'' ''/api/v1/auth/preferences'' (json_kwarg preferences) w"

subsection \<open>Coin methods\<close>

definition get_coins :: "transport \<Rightarrow> MemeCoinAnalyzerAPI \<Rightarrow> (string \<times> json) list \<Rightarrow> world
    \<Rightarrow> (pyexn + json) \<times> world" where
  "get_coins request self params w =
     make_request request self ''GET'' ''/api/v1/coins'' (params_kwarg params) w"

definition get_coin_by_id :: "transport \<Rightarrow> MemeCoinAnalyzerAPI \<Rightarrow> int \<Rightarrow> world
    \<Rightarrow> (pyexn + json) \<times> world" where
  "get_coin_by_id request self coin_id w =
     make_request request self ''GET'' (''/api/v1/coins/'' @ str_int coin_id) no_kwargs w"

definition get_coin_by_address :: "transport \<Rightarrow> MemeCoinAnalyzerAPI \<Rightarrow> string \<Rightarrow> world
    \<Rightarrow> (pyexn + json) \<times> world" where
  "get_coin_by_address request self address w =
     make_request request self ''GET'' (''/api/v1/coins/address/'' @ address) no_kwargs w"

definition create_coin :: "transport \<Rightarrow> MemeCoinAnalyzerAPI \<Rightarrow> json \<Rightarrow> world
    \<Rightarrow> (pyexn + json) \<times> world" where
  "create_coin request self coin_data w =
     make_request request self ''POST'' ''/api/v1/coins'' (json_kwarg coin_data) w"

definition search_coins :: "transport \<Rightarrow> MemeCoinAnalyzerAPI \<Rightarrow> string \<Rightarrow> world
    \<Rightarrow> (pyexn + json) \<times> world" where
  "search_coins request self query w =
     make_request request self ''GET'' ''/api/v1/coins/search'' (params_kwarg [(''q'', JStr query)]) w"

definition get_price_history :: "transport \<Rightarrow> MemeCoinAnalyzerAPI \<Rightarrow> int \<Rightarrow> (string \<times> json) list
    \<Rightarrow> world \<Rightarrow> (pyexn + json) \<times> world" where
  "get_price_history request self coin_id params w =
     make_request request self ''GET'' (''/api/v1/coins/'' @ str_int coin_id @ ''/price-history'')
       (params_kwarg params) w"

subsection \<open>Risk assessment methods\<close>

definition get_risk_assessment :: "transport \<Rightarrow> MemeCoinAnalyzerAPI \<Rightarrow> int \<Rightarrow> world
    \<Rightarrow> (pyexn + json) \<times> world" where
  "get_risk_assessment request self coin_id w =
     make_request request self ''GET'' (''/api/v1/risk-assessment/'' @ str_int coin_id) no_kwargs w"

subsection \<open>Portfolio methods\<close>

definition get_portfolio :: "transport \<Rightarrow> MemeCoinAnalyzerAPI \<Rightarrow> world \<Rightarrow> (pyexn + json) \<times> world" where
  "get_portfolio request self w = make_request request self ''GET'' ''/api/v1/portfolio'' no_kwargs w"

definition add_to_portfolio :: "transport \<Rightarrow> MemeCoinAnalyzerAPI \<Rightarrow> json \<Rightarrow> world
    \<Rightarrow> (pyexn + json) \<times> world" where
  "add_to_portfolio request self portfolio_item w =
     make_request request self ''POST'' ''/api/v1/portfolio'' (json_kwarg portfolio_item) w"

definition update_portfolio_item :: "transport \<Rightarrow> MemeCoinAnalyzerAPI \<Rightarrow> int \<Rightarrow> json \<Rightarrow> world
    \<Rightarrow> (pyexn + json) \<times> world" where
  "update_portfolio_item request self item_id updates w =
     make_request request self ''PUT'' (''/api/v1/portfolio/'' @ str_int item_id) (json_kwarg updates) w"

definition remove_from_portfolio :: "transport \<Rightarrow> MemeCoinAnalyzerAPI \<Rightarrow> int \<Rightarrow> world
    \<Rightarrow> (pyexn + json) \<times> world" where
  "remove_from_portfolio request self item_id w =
     make_request request self ''DELETE'' (''/api/v1/portfolio/'' @ str_int item_id) no_kwargs w"

subsection \<open>Alert methods\<close>

definition get_alerts :: "transport \<Rightarrow> MemeCoinAnalyzerAPI \<Rightarrow> world \<Rightarrow> (pyexn + json) \<times> world" where
  "get_alerts request self w = make_request request self ''GET'' ''/api/v1/alerts'' no_kwargs w"

definition create_alert :: "transport \<Rightarrow> MemeCoinAnalyzerAPI \<Rightarrow> json \<Rightarrow> world
    \<Rightarrow> (pyexn + json) \<times> world" where
  "create_alert request self alert_data w =
     make_request request self ''POST'' ''/api/v1/alerts'' (json_kwarg alert_data) w"

definition update_alert :: "transport \<Rightarrow> MemeCoinAnalyzerAPI \<Rightarrow> int \<Rightarrow> json \<Rightarrow> world
    \<Rightarrow> (pyexn + json) \<times> world" where
  "update_alert request self alert_id updates w =
     make_request request self ''PUT'' (''/api/v1/alerts/'' @ str_int alert_id) (json_kwarg updates) w"

definition delete_alert :: "transport \<Rightarrow> MemeCoinAnalyzerAPI \<Rightarrow> int \<Rightarrow> world
    \<Rightarrow> (pyexn + json) \<times> world" where
  "delete_alert request self alert_id w =
     make_request request self ''DELETE'' (''/api/v1/alerts/'' @ str_int alert_id) no_kwargs w"

section \<open>The WebSocket client\<close>

text \<open>
  A handler is a callable given the parsed message: it acts on the world and returns or
  raises. The socket object \<^verbatim>\<open>self.ws\<close> is \<open>None\<close> until \<^verbatim>\<open>connect\<close> creates it.
  The handler table is keyed by the strings given to \<^verbatim>\<open>on_message\<close>.
  \<^verbatim>\<open>connect\<close>, which starts the receiving thread and waits a second, and
  \<^verbatim>\<open>disconnect\<close> are calls into the socket library and have no model here; the
  callbacks are modelled one call at a time.
\<close>

type_synonym handler = "json \<Rightarrow> world \<Rightarrow> pyexn option \<times> world"

record 'sock WebSocketClient =
  client_ws_url :: string
  client_token :: json
  ws :: "'sock option"
  is_connected :: bool
  message_handlers :: "string \<rightharpoonup> handler"

definition WebSocketClient_init :: "string \<Rightarrow> json \<Rightarrow> 'sock WebSocketClient" where
  "WebSocketClient_init url tok =
     \<lparr>client_ws_url = url, client_token = tok, ws = None, is_connected = False,
      message_handlers = Map.empty\<rparr>"

definition on_message :: "'sock WebSocketClient \<Rightarrow> string \<Rightarrow> handler \<Rightarrow> 'sock WebSocketClient" where
  "on_message self message_type h =
     self\<lparr>message_handlers := (message_handlers self)(message_type \<mapsto> h)\<rparr>"

text \<open>
  \<^verbatim>\<open>send_message\<close>. \<open>dumps\<close> is \<^verbatim>\<open>json.dumps\<close> and \<open>send\<close> is the socket's
  \<^verbatim>\<open>send\<close>, which returns or raises.
\<close>

definition send_message :: "(json \<Rightarrow> string) \<Rightarrow> ('sock \<Rightarrow> string \<Rightarrow> pyexn option)
    \<Rightarrow> 'sock WebSocketClient \<Rightarrow> json \<Rightarrow> world \<Rightarrow> pyexn option \<times> world" where
  "send_message dumps send self message w =
     (if ws self \<noteq> None \<and> is_connected self
      then (send (the (ws self)) (dumps message), w\<lparr>sent := sent w @ [dumps message]\<rparr>)
      else (None, print ''WebSocket not connected'' w))"

definition on_open :: "(json \<Rightarrow> string) \<Rightarrow> ('sock \<Rightarrow> string \<Rightarrow> pyexn option)
    \<Rightarrow> 'sock WebSocketClient \<Rightarrow> world \<Rightarrow> pyexn option \<times> 'sock WebSocketClient \<times> world" where
  "on_open dumps send self w =
     (let w1 = print ''WebSocket connected'' w;
          self1 = self\<lparr>is_connected := True\<rparr>
      in if truthy (client_token self1)
         then (case send_message dumps send self1
                      (JObj [(''type'', JStr ''auth''), (''token'', client_token self1)]) w1 of
                 (r, w2) \<Rightarrow> (r, self1, w2))
         else (None, self1, w1))"

definition on_close :: "'sock WebSocketClient \<Rightarrow> world \<Rightarrow> 'sock WebSocketClient \<times> world" where
  "on_close self w = (self\<lparr>is_connected := False\<rparr>, print ''WebSocket disconnected'' w)"

text \<open>
  \<^verbatim>\<open>message_type in self.message_handlers\<close> followed by the lookup: a list or a
  dictionary is not hashable and the test raises \<open>TypeError\<close>; a string finds the handler
  registered for it; \<^verbatim>\<open>None\<close>, a boolean and a number equal no string key.
\<close>

fun hashable :: "json \<Rightarrow> bool" where
  "hashable (JArr xs) = False"
| "hashable (JObj kvs) = False"
| "hashable v = True"

definition handler_for :: "(string \<rightharpoonup> handler) \<Rightarrow> json \<Rightarrow> pyexn + handler option" where
  "handler_for hs v =
     (if \<not> hashable v then Inl TypeError
      else case v of JStr s \<Rightarrow> Inr (hs s) | _ \<Rightarrow> Inr None)"

text \<open>
  An incoming message is the text of a text frame (a \<^verbatim>\<open>str\<close>) or the bytes of a
  binary frame.
\<close>

datatype frame = text_frame string | binary_frame "nat list"

text \<open>
  The body of the \<^verbatim>\<open>try\<close> of \<^verbatim>\<open>on_message_received\<close>; \<open>loads\<close> is
  \<^verbatim>\<open>json.loads\<close>, which returns the value or raises: \<open>JSONDecodeError\<close> with
  its description for a text that is not JSON, and also exceptions of other classes
  (\<open>RecursionError\<close> on deep nesting, \<open>UnicodeDecodeError\<close> on bytes that are not
  a Unicode encoding). A parsed value that is not a dictionary has no \<^verbatim>\<open>get\<close>.
\<close>

definition dispatch :: "(frame \<Rightarrow> pyexn + json) \<Rightarrow> (json \<Rightarrow> string) \<Rightarrow> 'sock WebSocketClient
    \<Rightarrow> frame \<Rightarrow> world \<Rightarrow> pyexn option \<times> world" where
  "dispatch loads fmt self message w =
     (case loads message of
        Inl e \<Rightarrow> (Some e, w)
      | Inr data \<Rightarrow>
          (case data of
             JObj kvs \<Rightarrow>
               (let message_type = dict_get kvs ''type'';
                    w1 = print (''Received message: '' @ py_str fmt message_type) w
                in case handler_for (message_handlers self) message_type of
                     Inl e \<Rightarrow> (Some e, w1)
                   | Inr (Some h) \<Rightarrow> h data w1
                   | Inr None \<Rightarrow>
                       (None, print (''No handler for message type: '' @ py_str fmt message_type) w1))
           | _ \<Rightarrow> (Some AttributeError, w)))"

text \<open>
  The \<^verbatim>\<open>except json.JSONDecodeError\<close> clause catches whatever the body raised of
  that class, prints it and returns; every other outcome of the body is the outcome of the
  method.
\<close>

definition except_JSONDecodeError :: "pyexn option \<times> world \<Rightarrow> pyexn option \<times> world" where
  "except_JSONDecodeError r =
     (case r of
        (Some (JSONDecodeError err), w1) \<Rightarrow>
          (None, print (''Failed to parse WebSocket message: '' @ err) w1)
      | _ \<Rightarrow> r)"

definition on_message_received :: "(frame \<Rightarrow> pyexn + json) \<Rightarrow> (json \<Rightarrow> string)
    \<Rightarrow> 'sock WebSocketClient \<Rightarrow> frame \<Rightarrow> world \<Rightarrow> pyexn option \<times> world" where
  "on_message_received loads fmt self message w =
     except_JSONDecodeError (dispatch loads fmt self message w)"

definition subscribe :: "(json \<Rightarrow> string) \<Rightarrow> ('sock \<Rightarrow> string \<Rightarrow> pyexn option)
    \<Rightarrow> 'sock WebSocketClient \<Rightarrow> string \<Rightarrow> json \<Rightarrow> world \<Rightarrow> pyexn option \<times> world" where
  "subscribe dumps send self channel coin_id w =
     (let message = [(''type'', JStr ''subscribe''), (''channel'', JStr channel)];
          message1 = (if truthy coin_id then message @ [(''coinId'', coin_id)] else message)
      in send_message dumps send self (JObj message1) w)"

section \<open>Retry with backoff\<close>

text \<open>
  \<^verbatim>\<open>func\<close> is a callable without arguments: \<open>func k\<close> is what its call number \<open>k\<close>
  (from 0) does, return a value or raise. \<open>sleep\<close> is \<^verbatim>\<open>time.sleep\<close>, which returns
  or raises. The loop runs over \<^verbatim>\<open>range(1, max_retries + 1)\<close>; the state is the number
  of calls of \<open>func\<close> so far and the world. A loop that ends without \<^verbatim>\<open>return\<close> gives
  \<^verbatim>\<open>None\<close>.
\<close>

fun retry_loop :: "(nat \<Rightarrow> pyexn + 'a) \<Rightarrow> (int \<Rightarrow> pyexn option) \<Rightarrow> int \<Rightarrow> int \<Rightarrow> int list
    \<Rightarrow> nat \<Rightarrow> world \<Rightarrow> (pyexn + 'a option) \<times> nat \<times> world" where
  "retry_loop func sleep max_retries base_delay [] calls w = (Inr None, calls, w)"
| "retry_loop func sleep max_retries base_delay (attempt # rest) calls w =
     (case func calls of
        Inr v \<Rightarrow> (Inr (Some v), Suc calls, w)
      | Inl e \<Rightarrow>
          if attempt = max_retries then (Inl e, Suc calls, w)
          else
            (let delay = base_delay * 2 ^ nat (attempt - 1);
                 w1 = print (''Attempt '' @ str_int attempt @ '' failed, retrying in ''
                               @ str_int delay @ ''s...'') w;
                 w2 = w1\<lparr>slept := slept w1 @ [delay]\<rparr>
             in case sleep delay of
                  Some err \<Rightarrow> (Inl err, Suc calls, w2)
                | None \<Rightarrow> retry_loop func sleep max_retries base_delay rest (Suc calls) w2))"

definition retry_with_backoff :: "(nat \<Rightarrow> pyexn + 'a) \<Rightarrow> (int \<Rightarrow> pyexn option) \<Rightarrow> int \<Rightarrow> int
    \<Rightarrow> world \<Rightarrow> (pyexn + 'a option) \<times> nat \<times> world" where
  "retry_with_backoff func sleep max_retries base_delay w =
     retry_loop func sleep max_retries base_delay [1..max_retries] 0 w"

section \<open>Example surroundings\<close>

text \<open>
  Concrete worlds, servers, sockets and callables on which the theorems below are run.
\<close>

definition world0 :: world where
  "world0 = \<lparr>stdout = [], requested = [], sent = [], slept = []\<rparr>"

definition example_repr :: "json \<Rightarrow> string" where
  "example_repr v = ''<repr>''"

definition example_defaults :: "string \<rightharpoonup> string" where
  "example_defaults = [''Accept'' \<mapsto> ''*/*'']"

definition example_api :: MemeCoinAnalyzerAPI where
  "example_api = init example_repr example_defaults None JNull"

text \<open>A server that answers 300 Multiple Choices with a JSON list of choices.\<close>

definition server_multiple_choices :: transport where
  "server_multiple_choices s m u k =
     Inr \<lparr>status_code = 300, resp_text = ''[]'', json_result = Inr (JArr [])\<rparr>"

text \<open>A server that answers 404 with a body that is not JSON.\<close>

definition server_not_found :: transport where
  "server_not_found s m u k =
     Inr \<lparr>status_code = 404, resp_text = ''Not Found'',
          json_result = Inl (RequestException ''Expecting value: line 1 column 1 (char 0)'')\<rparr>"

text \<open>A server that answers every request with 200 and the same JSON object.\<close>

definition server_ok :: transport where
  \<open>server_ok s m u k =
     Inr \<lparr>status_code = 200, resp_text = ''{"success": true, "data": []}'',
          json_result = Inr (JObj [(''success'', JBool True), (''data'', JArr [])])\<rparr>\<close>

text \<open>A server that answers 204 No Content: a 2xx status and an empty body.\<close>

definition server_no_content :: transport where
  "server_no_content s m u k =
     Inr \<lparr>status_code = 204, resp_text = [],
          json_result = Inl (RequestException ''Expecting value: line 1 column 1 (char 0)'')\<rparr>"

text \<open>Three answers to a login: a token, a success without a token, a refusal.\<close>

definition server_login_token :: transport where
  \<open>server_login_token s m u k =
     Inr \<lparr>status_code = 200, resp_text = ''{"success": true, "data": {"token": "abc"}}'',
          json_result =
            Inr (JObj [(''success'', JBool True), (''data'', JObj [(''token'', JStr ''abc'')])])\<rparr>\<close>

definition server_login_no_token :: transport where
  \<open>server_login_no_token s m u k =
     Inr \<lparr>status_code = 200, resp_text = ''{"success": true, "data": {}}'',
          json_result = Inr (JObj [(''success'', JBool True), (''data'', JObj [])])\<rparr>\<close>

definition server_login_refused :: transport where
  \<open>server_login_refused s m u k =
     Inr \<lparr>status_code = 200, resp_text = ''{"success": false}'',
          json_result = Inr (JObj [(''success'', JBool False)])\<rparr>\<close>

text \<open>
  \<^verbatim>\<open>json.loads\<close> and \<^verbatim>\<open>json.dumps\<close> on the frames of the examples. A text of
  1000 opening brackets exceeds the interpreter's recursion limit; the byte \<open>0xff\<close> starts
  no UTF-8, UTF-16 or UTF-32 text.
\<close>

definition deep_brackets :: string where
  "deep_brackets = replicate 1000 CHR ''[''"

definition example_loads :: "frame \<Rightarrow> pyexn + json" where
  \<open>example_loads m =
     (if m = text_frame deep_brackets then Inl RecursionError
      else if m = binary_frame [255] then Inl UnicodeDecodeError
      else if m = text_frame ''[]'' then Inr (JArr [])
      else if m = text_frame ''{"type": "price_update"}''
      then Inr (JObj [(''type'', JStr ''price_update'')])
      else if m = text_frame ''{"type": "ping"}'' then Inr (JObj [(''type'', JStr ''ping'')])
      else if m = text_frame ''{"type": []}'' then Inr (JObj [(''type'', JArr [])])
      else Inl (JSONDecodeError ''Expecting value: line 1 column 1 (char 0)''))\<close>

definition example_dumps :: "json \<Rightarrow> string" where
  \<open>example_dumps v =
     (if v = JObj [(''type'', JStr ''auth''), (''token'', JStr ''abc'')]
      then ''{"type": "auth", "token": "abc"}''
      else if v = JObj [(''type'', JStr ''subscribe''), (''channel'', JStr ''price_updates''),
                        (''coinId'', JStr ''1'')]
      then ''{"type": "subscribe", "channel": "price_updates", "coinId": "1"}''
      else if v = JObj [(''type'', JStr ''subscribe''), (''channel'', JStr ''price_updates'')]
      then ''{"type": "subscribe", "channel": "price_updates"}''
      else ''null'')\<close>

text \<open>A socket (named by a number) whose \<^verbatim>\<open>send\<close> returns for every frame.\<close>

definition example_send :: "nat \<Rightarrow> string \<Rightarrow> pyexn option" where
  "example_send sock frame = None"

definition example_handler :: handler where
  "example_handler data w = (None, print ''Price update'' w)"

definition example_client :: "nat WebSocketClient" where
  "example_client =
     on_message (WebSocketClient_init ''ws://localhost:3001/ws'' (JStr ''abc''))
       ''price_update'' example_handler"

text \<open>
  \<^verbatim>\<open>time.sleep\<close> raises \<open>ValueError\<close> for a negative duration and sleeps otherwise.
  A callable that fails twice and then returns, and one that fails at every call.
\<close>

definition time_sleep :: "int \<Rightarrow> pyexn option" where
  "time_sleep d = (if d < 0 then Some (ValueError ''sleep length must be non-negative'') else None)"

definition flaky :: "nat \<Rightarrow> pyexn + json" where
  "flaky k = (if k < 2 then Inl (RequestException ''Connection refused'') else Inr (JArr []))"

definition always_failing :: "nat \<Rightarrow> pyexn + json" where
  "always_failing k = Inl (RequestException ''Connection refused'')"

section \<open>Helper lemmas\<close>

lemma subscript_InrD:
  assumes "subscript v k = Inr x"
  shows "\<exists>d. v = JObj d \<and> map_of d k = Some x"
  using assms by (cases v) (auto split: option.splits)

lemma short_not_deep_brackets:
  assumes "length s < 1000"
  shows "(s = deep_brackets) = False"
  using assms by (auto simp: deep_brackets_def)

lemma make_request_body:
  assumes "success_with_body (request (session self) method (base_url (config self) @ endpoint) kwargs)
             body"
  shows "fst (make_request request self method endpoint kwargs w) = Inr body"
  using assms
  by (auto simp: success_with_body_def make_request_def try_request_def Let_def split: sum.splits)

lemma make_request_requested:
  "requested (snd (make_request request self method endpoint kwargs w)) =
     requested w @ [(method, base_url (config self) @ endpoint, headers (session self))]"
  by (simp add: make_request_def Let_def print_def split: sum.splits pyexn.splits)

lemma set_token_fields:
  "token (set_token fmt self tok) = tok"
  "config (set_token fmt self tok) = config self"
  "headers (session (set_token fmt self tok)) =
     (headers (session self))(''Authorization'' \<mapsto> ''Bearer '' @ py_str fmt tok)"
  by (simp_all add: set_token_def)

section \<open>Properties of the HTTP client\<close>

text \<open>
  C1 (as amended). \<^verbatim>\<open>_make_request\<close> raises \<open>HTTPError\<close>, after printing the status
  code and the body, whenever the response has a client or server error status (400 to
  599), the statuses on which \<^verbatim>\<open>raise_for_status\<close> raises. It returns a value exactly
  when the request gave a response whose status is outside 400 to 599 and whose body
  parses, and the value is then the parsed body; in every other case it raises.
\<close>

theorem make_request_outcome:
  "(request (session self) method (base_url (config self) @ endpoint) kwargs = Inr r \<and>
      400 \<le> status_code r \<and> status_code r < 600 \<longrightarrow>
    make_request request self method endpoint kwargs w =
      (Inl (HTTPError (status_code r) (resp_text r)),
       print (''HTTP Error '' @ str_int (status_code r) @ '': '' @ resp_text r)
         (w\<lparr>requested := requested w @
              [(method, base_url (config self) @ endpoint, headers (session self))]\<rparr>)))
   \<and> (fst (make_request request self method endpoint kwargs w) = Inr body \<longleftrightarrow>
       (\<exists>r. request (session self) method (base_url (config self) @ endpoint) kwargs = Inr r
            \<and> \<not> (400 \<le> status_code r \<and> status_code r < 600) \<and> json_result r = Inr body))"
  by (auto simp: make_request_def try_request_def raise_for_status_def Let_def
      split: sum.splits option.splits pyexn.splits if_splits)

text \<open>On the server that answers 404 the wrapper prints the status and the body and raises.\<close>

theorem make_request_outcome_witness:
  "server_not_found (session example_api) ''GET''
       (base_url (config example_api) @ ''/api/v1/coins/7'') no_kwargs =
     Inr \<lparr>status_code = 404, resp_text = ''Not Found'',
          json_result = Inl (RequestException ''Expecting value: line 1 column 1 (char 0)'')\<rparr>
   \<and> make_request server_not_found example_api ''GET'' ''/api/v1/coins/7'' no_kwargs world0 =
       (Inl (HTTPError 404 ''Not Found''),
        print ''HTTP Error 404: Not Found''
          (world0\<lparr>requested := [(''GET'', ''http://localhost:3001/api/v1/coins/7'',
              headers (session example_api))]\<rparr>))"
  using make_request_outcome [of server_not_found example_api "''GET''" "''/api/v1/coins/7''"
      no_kwargs "\<lparr>status_code = 404, resp_text = ''Not Found'',
          json_result = Inl (RequestException ''Expecting value: line 1 column 1 (char 0)'')\<rparr>"
      world0 JNull]
  by (simp add: server_not_found_def example_api_def init_def APIConfig_default_def world0_def
      str_int_def)

text \<open>
  The claim as stated fails: status 300 is not a 2xx status, and the wrapper returns the
  parsed body of the response without raising.
\<close>

theorem make_request_non_2xx_counterexample:
  "server_multiple_choices (session example_api) ''GET''
       (base_url (config example_api) @ ''/api/v1/coins'') no_kwargs =
     Inr \<lparr>status_code = 300, resp_text = ''[]'', json_result = Inr (JArr [])\<rparr>
   \<and> \<not> (200 \<le> (300::int) \<and> (300::int) < 300)
   \<and> fst (make_request server_multiple_choices example_api ''GET'' ''/api/v1/coins'' no_kwargs
            world0) = Inr (JArr [])
   \<and> stdout (snd (make_request server_multiple_choices example_api ''GET'' ''/api/v1/coins''
            no_kwargs world0)) = []"
  by (simp add: server_multiple_choices_def make_request_def try_request_def
      raise_for_status_def Let_def world0_def)

text \<open>
  C6 (as amended). For every token string \<open>t\<close>, after \<^verbatim>\<open>set_token(t)\<close> the client's
  token is \<open>t\<close>, its session headers hold an Authorization header whose value is
  \<^verbatim>\<open>'Bearer '\<close> followed by \<open>t\<close>, and a request made afterwards is made with the
  session's headers, that header among them. Constructing the client with a token that is
  not empty has the same effect as \<^verbatim>\<open>set_token\<close> on a client constructed without one.
\<close>

theorem set_token_authorization:
  "token (set_token fmt self (JStr t)) = JStr t
   \<and> headers (session (set_token fmt self (JStr t))) ''Authorization'' = Some (''Bearer '' @ t)
   \<and> (\<exists>hs. requested (snd (make_request request (set_token fmt self (JStr t))
                              method endpoint kwargs w)) =
               requested w @ [(method, base_url (config self) @ endpoint, hs)]
            \<and> hs ''Authorization'' = Some (''Bearer '' @ t))
   \<and> (t \<noteq> [] \<longrightarrow>
        init fmt defaults cfg (JStr t) = set_token fmt (init fmt defaults cfg JNull) (JStr t)
        \<and> token (init fmt defaults cfg (JStr t)) = JStr t
        \<and> headers (session (init fmt defaults cfg (JStr t))) ''Authorization'' =
            Some (''Bearer '' @ t))"
proof -
  have a: "token (set_token fmt self (JStr t)) = JStr t"
    by (simp add: set_token_fields)
  have b: "headers (session (set_token fmt self (JStr t))) ''Authorization'' =
             Some (''Bearer '' @ t)"
    by (simp add: set_token_fields)
  have c: "\<exists>hs. requested (snd (make_request request (set_token fmt self (JStr t))
                              method endpoint kwargs w)) =
               requested w @ [(method, base_url (config self) @ endpoint, hs)]
            \<and> hs ''Authorization'' = Some (''Bearer '' @ t)"
    using b by (simp add: make_request_requested set_token_fields)
  have d: "init fmt defaults cfg (JStr t) = set_token fmt (init fmt defaults cfg JNull) (JStr t)"
    if "t \<noteq> []"
    using that by (simp add: init_def set_token_def Let_def)
  have e: "token (init fmt defaults cfg (JStr t)) = JStr t
        \<and> headers (session (init fmt defaults cfg (JStr t))) ''Authorization'' =
            Some (''Bearer '' @ t)"
    if "t \<noteq> []"
    unfolding d [OF that] by (simp add: set_token_fields)
  from a b c d e show ?thesis by blast
qed

theorem set_token_authorization_witness:
  "''abc'' \<noteq> []
   \<and> token (set_token example_repr example_api (JStr ''abc'')) = JStr ''abc''
   \<and> headers (session (set_token example_repr example_api (JStr ''abc''))) ''Authorization'' =
       Some ''Bearer abc''
   \<and> requested (snd (make_request server_ok (set_token example_repr example_api (JStr ''abc''))
        ''GET'' ''/api/v1/portfolio'' no_kwargs world0)) =
       [(''GET'', ''http://localhost:3001/api/v1/portfolio'',
         headers (session (set_token example_repr example_api (JStr ''abc''))))]
   \<and> init example_repr example_defaults None (JStr ''abc'') =
       set_token example_repr example_api (JStr ''abc'')
   \<and> headers (session (init example_repr example_defaults None (JStr ''abc''))) ''Authorization'' =
       Some ''Bearer abc''"
  using set_token_authorization [of example_repr example_api "''abc''" server_ok "''GET''"
      "''/api/v1/portfolio''" no_kwargs world0 example_defaults None]
  by (simp add: example_api_def make_request_requested set_token_fields world0_def)
    (simp add: init_def APIConfig_default_def)

text \<open>
  The claim as stated fails for the empty token string: \<^verbatim>\<open>set_token\<close> sets the header
  \<^verbatim>\<open>'Bearer '\<close>, the constructor's guard \<^verbatim>\<open>if token:\<close> skips \<^verbatim>\<open>set_token\<close> and
  leaves the session without an Authorization header.
\<close>

theorem init_empty_token_counterexample:
  "headers (session (set_token example_repr example_api (JStr ''''))) ''Authorization'' =
     Some ''Bearer ''
   \<and> headers (session (init example_repr example_defaults None (JStr ''''))) ''Authorization'' =
       None"
  by (simp add: set_token_fields init_def example_defaults_def Let_def)

text \<open>
  C8 (as amended). Every method for coins, price history, risk assessment, portfolio and
  alerts returns, for a successful response whose body parses as JSON (the request gave a
  response, \<^verbatim>\<open>raise_for_status\<close> did not raise and \<^verbatim>\<open>json()\<close> returned), the
  parsed body as it was received.
\<close>

theorem api_methods_return_body:
  "(success_with_body (request (session self) ''GET'' (base_url (config self) @ ''/api/v1/coins'')
        (params_kwarg params)) body \<longrightarrow>
      fst (get_coins request self params w) = Inr body)
   \<and> (success_with_body (request (session self) ''GET''
        (base_url (config self) @ ''/api/v1/coins/'' @ str_int coin_id) no_kwargs) body \<longrightarrow>
      fst (get_coin_by_id request self coin_id w) = Inr body)
   \<and> (success_with_body (request (session self) ''GET''
        (base_url (config self) @ ''/api/v1/coins/address/'' @ address) no_kwargs) body \<longrightarrow>
      fst (get_coin_by_address request self address w) = Inr body)
   \<and> (success_with_body (request (session self) ''POST'' (base_url (config self) @ ''/api/v1/coins'')
        (json_kwarg payload)) body \<longrightarrow>
      fst (create_coin request self payload w) = Inr body)
   \<and> (success_with_body (request (session self) ''GET''
        (base_url (config self) @ ''/api/v1/coins/search'') (params_kwarg [(''q'', JStr query)]))
        body \<longrightarrow>
      fst (search_coins request self query w) = Inr body)
   \<and> (success_with_body (request (session self) ''GET''
        (base_url (config self) @ ''/api/v1/coins/'' @ str_int coin_id @ ''/price-history'')
        (params_kwarg params)) body \<longrightarrow>
      fst (get_price_history request self coin_id params w) = Inr body)
   \<and> (success_with_body (request (session self) ''GET''
        (base_url (config self) @ ''/api/v1/risk-assessment/'' @ str_int coin_id) no_kwargs)
        body \<longrightarrow>
      fst (get_risk_assessment request self coin_id w) = Inr body)
   \<and> (success_with_body (request (session self) ''GET'' (base_url (config self) @ ''/api/v1/portfolio'')
        no_kwargs) body \<longrightarrow>
      fst (get_portfolio request self w) = Inr body)
   \<and> (success_with_body (request (session self) ''POST'' (base_url (config self) @ ''/api/v1/portfolio'')
        (json_kwarg payload)) body \<longrightarrow>
      fst (add_to_portfolio request self payload w) = Inr body)
   \<and> (success_with_body (request (session self) ''PUT''
        (base_url (config self) @ ''/api/v1/portfolio/'' @ str_int item_id) (json_kwarg payload))
        body \<longrightarrow>
      fst (update_portfolio_item request self item_id payload w) = Inr body)
   \<and> (success_with_body (request (session self) ''DELETE''
        (base_url (config self) @ ''/api/v1/portfolio/'' @ str_int item_id) no_kwargs) body \<longrightarrow>
      fst (remove_from_portfolio request self item_id w) = Inr body)
   \<and> (success_with_body (request (session self) ''GET'' (base_url (config self) @ ''/api/v1/alerts'')
        no_kwargs) body \<longrightarrow>
      fst (get_alerts request self w) = Inr body)
   \<and> (success_with_body (request (session self) ''POST'' (base_url (config self) @ ''/api/v1/alerts'')
        (json_kwarg payload)) body \<longrightarrow>
      fst (create_alert request self payload w) = Inr body)
   \<and> (success_with_body (request (session self) ''PUT''
        (base_url (config self) @ ''/api/v1/alerts/'' @ str_int item_id) (json_kwarg payload))
        body \<longrightarrow>
      fst (update_alert request self item_id payload w) = Inr body)
   \<and> (success_with_body (request (session self) ''DELETE''
        (base_url (config self) @ ''/api/v1/alerts/'' @ str_int item_id) no_kwargs) body \<longrightarrow>
      fst (delete_alert request self item_id w) = Inr body)"
  by (simp add: make_request_body get_coins_def get_coin_by_id_def get_coin_by_address_def
      create_coin_def search_coins_def get_price_history_def get_risk_assessment_def
      get_portfolio_def add_to_portfolio_def update_portfolio_item_def
      remove_from_portfolio_def get_alerts_def create_alert_def update_alert_def
      delete_alert_def)

theorem api_methods_return_body_witness:
  "success_with_body (server_ok (session example_api) ''GET''
       (base_url (config example_api) @ ''/api/v1/coins/'' @ str_int 7) no_kwargs)
     (JObj [(''success'', JBool True), (''data'', JArr [])])
   \<and> fst (get_coins server_ok example_api [(''limit'', JInt 5)] world0) =
       Inr (JObj [(''success'', JBool True), (''data'', JArr [])])
   \<and> fst (get_coin_by_id server_ok example_api 7 world0) =
       Inr (JObj [(''success'', JBool True), (''data'', JArr [])])
   \<and> fst (get_coin_by_address server_ok example_api ''0xabc'' world0) =
       Inr (JObj [(''success'', JBool True), (''data'', JArr [])])
   \<and> fst (create_coin server_ok example_api (JObj [(''symbol'', JStr ''TEST'')]) world0) =
       Inr (JObj [(''success'', JBool True), (''data'', JArr [])])
   \<and> fst (search_coins server_ok example_api ''dogecoin'' world0) =
       Inr (JObj [(''success'', JBool True), (''data'', JArr [])])
   \<and> fst (get_price_history server_ok example_api 7 [(''limit'', JInt 5)] world0) =
       Inr (JObj [(''success'', JBool True), (''data'', JArr [])])
   \<and> fst (get_risk_assessment server_ok example_api 7 world0) =
       Inr (JObj [(''success'', JBool True), (''data'', JArr [])])
   \<and> fst (get_portfolio server_ok example_api world0) =
       Inr (JObj [(''success'', JBool True), (''data'', JArr [])])
   \<and> fst (add_to_portfolio server_ok example_api (JObj [(''symbol'', JStr ''TEST'')]) world0) =
       Inr (JObj [(''success'', JBool True), (''data'', JArr [])])
   \<and> fst (update_portfolio_item server_ok example_api 3 (JObj [(''symbol'', JStr ''TEST'')])
        world0) = Inr (JObj [(''success'', JBool True), (''data'', JArr [])])
   \<and> fst (remove_from_portfolio server_ok example_api 3 world0) =
       Inr (JObj [(''success'', JBool True), (''data'', JArr [])])
   \<and> fst (get_alerts server_ok example_api world0) =
       Inr (JObj [(''success'', JBool True), (''data'', JArr [])])
   \<and> fst (create_alert server_ok example_api (JObj [(''symbol'', JStr ''TEST'')]) world0) =
       Inr (JObj [(''success'', JBool True), (''data'', JArr [])])
   \<and> fst (update_alert server_ok example_api 3 (JObj [(''symbol'', JStr ''TEST'')]) world0) =
       Inr (JObj [(''success'', JBool True), (''data'', JArr [])])
   \<and> fst (delete_alert server_ok example_api 3 world0) =
       Inr (JObj [(''success'', JBool True), (''data'', JArr [])])"
  using api_methods_return_body [of server_ok example_api "[(''limit'', JInt 5)]"
      "JObj [(''success'', JBool True), (''data'', JArr [])]" world0 7 "''0xabc''"
      "JObj [(''symbol'', JStr ''TEST'')]" "''dogecoin''" 3]
  by (simp add: success_with_body_def server_ok_def raise_for_status_def)

text \<open>
  The claim as stated fails for a successful response without a JSON body: on the answer
  204 No Content \<^verbatim>\<open>raise_for_status\<close> does not raise, \<^verbatim>\<open>json()\<close> raises, and
  the method prints the error and raises instead of returning a body.
\<close>

theorem api_method_no_content_counterexample:
  "server_no_content (session example_api) ''DELETE''
       (base_url (config example_api) @ ''/api/v1/alerts/'' @ str_int 3) no_kwargs =
     Inr \<lparr>status_code = 204, resp_text = [],
          json_result = Inl (RequestException ''Expecting value: line 1 column 1 (char 0)'')\<rparr>
   \<and> (200::int) \<le> 204 \<and> (204::int) < 300
   \<and> raise_for_status \<lparr>status_code = 204, resp_text = [],
          json_result = Inl (RequestException ''Expecting value: line 1 column 1 (char 0)'')\<rparr> =
       None
   \<and> fst (delete_alert server_no_content example_api 3 world0) =
       Inl (RequestException ''Expecting value: line 1 column 1 (char 0)'')
   \<and> stdout (snd (delete_alert server_no_content example_api 3 world0)) =
       [''Request Error: Expecting value: line 1 column 1 (char 0)'']"
  by (simp add: server_no_content_def delete_alert_def make_request_def try_request_def
      raise_for_status_def Let_def print_def world0_def)

section \<open>Properties of the WebSocket client\<close>

lemma on_message_registers:
  "message_handlers (on_message self message_type h) message_type = Some h"
  by (simp add: on_message_def)

lemma dispatch_object:
  assumes "loads message = Inr (JObj kvs)"
  shows "dispatch loads fmt self message w =
           (case handler_for (message_handlers self) (dict_get kvs ''type'') of
              Inl e \<Rightarrow> (Some e, print (''Received message: '' @ py_str fmt (dict_get kvs ''type'')) w)
            | Inr (Some h) \<Rightarrow>
                h (JObj kvs) (print (''Received message: '' @ py_str fmt (dict_get kvs ''type'')) w)
            | Inr None \<Rightarrow>
                (None, print (''No handler for message type: '' @ py_str fmt (dict_get kvs ''type''))
                   (print (''Received message: '' @ py_str fmt (dict_get kvs ''type'')) w)))"
  using assms by (simp add: dispatch_def Let_def split: sum.splits option.splits)

lemma handler_for_unregistered:
  assumes "hashable v" and "\<forall>t. v = JStr t \<longrightarrow> hs t = None"
  shows "handler_for hs v = Inr None"
  using assms by (cases v) (simp_all add: handler_for_def)

text \<open>
  C2 (as amended). A handler given to \<^verbatim>\<open>on_message\<close> for a type is the one
  registered for it. For every incoming text message that parses as a JSON object whose
  \<^verbatim>\<open>type\<close> is a string with a registered handler, \<^verbatim>\<open>on_message_received\<close>
  prints the type and calls that handler, and no other, with the whole parsed message; the
  outcome is the handler's (a \<open>JSONDecodeError\<close> it raises is caught by the method's
  \<^verbatim>\<open>except\<close> clause). When the object's \<^verbatim>\<open>type\<close> is absent or is \<^verbatim>\<open>None\<close>, a
  boolean, a number or a string without a registered handler, no handler is called, two
  log lines are printed and the method returns without an exception.
\<close>

theorem on_message_received_dispatch:
  "message_handlers (on_message self t h) t = Some h
   \<and> (loads message = Inr (JObj kvs) \<and> dict_get kvs ''type'' = JStr t \<and>
        message_handlers self t = Some h \<longrightarrow>
      on_message_received loads fmt self message w =
        except_JSONDecodeError (h (JObj kvs) (print (''Received message: '' @ t) w)))
   \<and> (loads message = Inr (JObj kvs) \<and> hashable (dict_get kvs ''type'') \<and>
        (\<forall>s. dict_get kvs ''type'' = JStr s \<longrightarrow> message_handlers self s = None) \<longrightarrow>
      on_message_received loads fmt self message w =
        (None, print (''No handler for message type: '' @ py_str fmt (dict_get kvs ''type''))
                 (print (''Received message: '' @ py_str fmt (dict_get kvs ''type'')) w)))"
proof -
  have reg: "message_handlers (on_message self t h) t = Some h"
    by (rule on_message_registers)
  have called: "on_message_received loads fmt self message w =
        except_JSONDecodeError (h (JObj kvs) (print (''Received message: '' @ t) w))"
    if "loads message = Inr (JObj kvs)" "dict_get kvs ''type'' = JStr t"
      "message_handlers self t = Some h"
    using that by (simp add: on_message_received_def dispatch_object handler_for_def)
  have dropped: "on_message_received loads fmt self message w =
        (None, print (''No handler for message type: '' @ py_str fmt (dict_get kvs ''type''))
                 (print (''Received message: '' @ py_str fmt (dict_get kvs ''type'')) w))"
    if "loads message = Inr (JObj kvs)" "hashable (dict_get kvs ''type'')"
      "\<forall>s. dict_get kvs ''type'' = JStr s \<longrightarrow> message_handlers self s = None"
    using that
    by (simp add: on_message_received_def dispatch_object handler_for_unregistered
        except_JSONDecodeError_def)
  from reg called dropped show ?thesis by blast
qed

theorem on_message_received_dispatch_witness:
  \<open>example_loads (text_frame ''{"type": "price_update"}'') = Inr (JObj [(''type'', JStr ''price_update'')])
   \<and> message_handlers example_client ''price_update'' = Some example_handler
   \<and> on_message_received example_loads example_repr example_client
        (text_frame ''{"type": "price_update"}'')
        world0 =
       (None, world0\<lparr>stdout := [''Received message: price_update'', ''Price update'']\<rparr>)
   \<and> example_loads (text_frame ''{"type": "ping"}'') = Inr (JObj [(''type'', JStr ''ping'')])
   \<and> message_handlers example_client ''ping'' = None
   \<and> on_message_received example_loads example_repr example_client
        (text_frame ''{"type": "ping"}'') world0 =
       (None, world0\<lparr>stdout := [''Received message: ping'',
                                ''No handler for message type: ping'']\<rparr>)\<close>
  using on_message_received_dispatch [of "WebSocketClient_init ''ws://localhost:3001/ws'' (JStr ''abc'')"
        "''price_update''" example_handler]
    on_message_received_dispatch [of example_client "''price_update''" example_handler
        example_loads \<open>text_frame ''{"type": "price_update"}''\<close> "[(''type'', JStr ''price_update'')]"
        example_repr world0]
    on_message_received_dispatch [of example_client "''ping''" example_handler
        example_loads \<open>text_frame ''{"type": "ping"}''\<close> "[(''type'', JStr ''ping'')]"
        example_repr world0]
  by (simp add: example_loads_def short_not_deep_brackets example_client_def on_message_def
      WebSocketClient_init_def dict_get_def example_handler_def except_JSONDecodeError_def
      print_def world0_def)

text \<open>
  The claim as stated fails for a message that parses as JSON and is not an object, and for
  an object whose \<^verbatim>\<open>type\<close> is a list: the lookup of \<^verbatim>\<open>get\<close> raises
  \<open>AttributeError\<close>, the membership test raises \<open>TypeError\<close>, and neither is caught.
\<close>

theorem on_message_received_counterexample:
  \<open>example_loads (text_frame ''[]'') = Inr (JArr [])
   \<and> fst (on_message_received example_loads example_repr example_client (text_frame ''[]'')
            world0) =
       Some AttributeError
   \<and> example_loads (text_frame ''{"type": []}'') = Inr (JObj [(''type'', JArr [])])
   \<and> fst (on_message_received example_loads example_repr example_client
            (text_frame ''{"type": []}'') world0) =
       Some TypeError\<close>
  by (simp add: example_loads_def short_not_deep_brackets on_message_received_def dispatch_def
      handler_for_def dict_get_def except_JSONDecodeError_def Let_def)

text \<open>
  C5 (as amended). For every incoming message on which \<^verbatim>\<open>json.loads\<close> raises
  \<open>JSONDecodeError\<close>, \<^verbatim>\<open>on_message_received\<close> catches the parse failure, prints
  it and returns: the outcome is no exception and the world with that one line added,
  whatever handlers are registered, so no handler is invoked.
\<close>

theorem on_message_received_invalid_json:
  assumes "loads message = Inl (JSONDecodeError err)"
  shows "on_message_received loads fmt self message w =
           (None, print (''Failed to parse WebSocket message: '' @ err) w)"
  using assms by (simp add: on_message_received_def dispatch_def except_JSONDecodeError_def)

theorem on_message_received_invalid_json_witness:
  "example_loads (text_frame ''price_update'') =
     Inl (JSONDecodeError ''Expecting value: line 1 column 1 (char 0)'')
   \<and> on_message_received example_loads example_repr example_client (text_frame ''price_update'')
        world0 =
       (None, world0\<lparr>stdout :=
          [''Failed to parse WebSocket message: Expecting value: line 1 column 1 (char 0)'']\<rparr>)"
  using on_message_received_invalid_json [of example_loads "text_frame ''price_update''"
      "''Expecting value: line 1 column 1 (char 0)''" example_repr example_client world0]
  by (simp add: example_loads_def short_not_deep_brackets print_def world0_def)

text \<open>
  The claim as stated fails for messages that are not valid JSON and on which
  \<^verbatim>\<open>json.loads\<close> raises an exception of another class: a text frame of 1000 opening
  brackets raises \<open>RecursionError\<close>, a binary frame of the byte \<open>0xff\<close> raises
  \<open>UnicodeDecodeError\<close>. The \<^verbatim>\<open>except json.JSONDecodeError\<close> clause catches
  neither; the exception leaves the callback and nothing is printed.
\<close>

theorem on_message_received_invalid_json_counterexample:
  "example_loads (text_frame deep_brackets) = Inl RecursionError
   \<and> on_message_received example_loads example_repr example_client (text_frame deep_brackets)
        world0 = (Some RecursionError, world0)
   \<and> example_loads (binary_frame [255]) = Inl UnicodeDecodeError
   \<and> on_message_received example_loads example_repr example_client (binary_frame [255])
        world0 = (Some UnicodeDecodeError, world0)"
  by (simp add: example_loads_def on_message_received_def dispatch_def
      except_JSONDecodeError_def)

text \<open>
  C9. \<^verbatim>\<open>send_message\<close> gives the JSON-encoded message to the socket when the socket
  object exists and \<^verbatim>\<open>is_connected\<close> is true, and only then: a call that adds a frame
  to those sent was made in that state. Otherwise it prints
  \<^verbatim>\<open>WebSocket not connected\<close>, sends nothing and raises no exception.
\<close>

theorem send_message_guard:
  "(ws self \<noteq> None \<and> is_connected self \<longrightarrow>
      send_message dumps send self message w =
        (send (the (ws self)) (dumps message), w\<lparr>sent := sent w @ [dumps message]\<rparr>))
   \<and> (sent (snd (send_message dumps send self message w)) \<noteq> sent w \<longrightarrow>
        ws self \<noteq> None \<and> is_connected self)
   \<and> (\<not> (ws self \<noteq> None \<and> is_connected self) \<longrightarrow>
      send_message dumps send self message w = (None, print ''WebSocket not connected'' w)
      \<and> sent (snd (send_message dumps send self message w)) = sent w)"
proof -
  have connected: "send_message dumps send self message w =
        (send (the (ws self)) (dumps message), w\<lparr>sent := sent w @ [dumps message]\<rparr>)"
    if "ws self \<noteq> None \<and> is_connected self"
    using that by (simp add: send_message_def)
  have dropped: "send_message dumps send self message w =
        (None, print ''WebSocket not connected'' w)
      \<and> sent (snd (send_message dumps send self message w)) = sent w"
    if "\<not> (ws self \<noteq> None \<and> is_connected self)"
    using that by (simp add: send_message_def print_def)
  have only: "ws self \<noteq> None \<and> is_connected self"
    if changed: "sent (snd (send_message dumps send self message w)) \<noteq> sent w"
  proof (rule ccontr)
    assume "\<not> (ws self \<noteq> None \<and> is_connected self)"
    from dropped [OF this] changed show False by simp
  qed
  from connected dropped only show ?thesis by blast
qed

theorem send_message_guard_witness:
  \<open>ws (example_client\<lparr>ws := Some 0, is_connected := True\<rparr>) \<noteq> None
   \<and> is_connected (example_client\<lparr>ws := Some 0, is_connected := True\<rparr>)
   \<and> send_message example_dumps example_send (example_client\<lparr>ws := Some 0, is_connected := True\<rparr>)
        (JObj [(''type'', JStr ''auth''), (''token'', JStr ''abc'')]) world0 =
       (None, world0\<lparr>sent := [''{"type": "auth", "token": "abc"}'']\<rparr>)
   \<and> \<not> is_connected (example_client\<lparr>ws := Some 0\<rparr>)
   \<and> send_message example_dumps example_send (example_client\<lparr>ws := Some 0\<rparr>)
        (JObj [(''type'', JStr ''auth''), (''token'', JStr ''abc'')]) world0 =
       (None, world0\<lparr>stdout := [''WebSocket not connected'']\<rparr>)\<close>
  using send_message_guard [of "example_client\<lparr>ws := Some 0, is_connected := True\<rparr>"
        example_dumps example_send "JObj [(''type'', JStr ''auth''), (''token'', JStr ''abc'')]"
        world0]
    send_message_guard [of "example_client\<lparr>ws := Some 0\<rparr>"
        example_dumps example_send "JObj [(''type'', JStr ''auth''), (''token'', JStr ''abc'')]"
        world0]
  by (simp add: example_client_def on_message_def WebSocketClient_init_def example_dumps_def
      example_send_def print_def world0_def)

text \<open>
  C3 (as amended). Whenever the connection opens, \<^verbatim>\<open>on_open\<close> prints a line and sets
  \<^verbatim>\<open>is_connected\<close>. If the client has a token (one that is not \<^verbatim>\<open>None\<close> and not
  empty) and the socket object exists, it sends exactly one message, the auth message
  \<^verbatim>\<open>{'type': 'auth', 'token': <token>}\<close>; without a token it sends nothing.
\<close>

theorem on_open_auth:
  "(truthy (client_token self) \<and> ws self = Some sock \<longrightarrow>
      on_open dumps send self w =
        (send sock (dumps (JObj [(''type'', JStr ''auth''), (''token'', client_token self)])),
         self\<lparr>is_connected := True\<rparr>,
         (print ''WebSocket connected'' w)
           \<lparr>sent := sent w @
              [dumps (JObj [(''type'', JStr ''auth''), (''token'', client_token self)])]\<rparr>))
   \<and> (\<not> truthy (client_token self) \<longrightarrow>
      on_open dumps send self w =
        (None, self\<lparr>is_connected := True\<rparr>, print ''WebSocket connected'' w))"
proof -
  let ?auth = "JObj [(''type'', JStr ''auth''), (''token'', client_token self)]"
  let ?self1 = "self\<lparr>is_connected := True\<rparr>"
  have with_token: "on_open dumps send self w =
        (send sock (dumps ?auth), ?self1,
         (print ''WebSocket connected'' w)\<lparr>sent := sent w @ [dumps ?auth]\<rparr>)"
    if tok: "truthy (client_token self)" and sock: "ws self = Some sock"
  proof -
    have guard: "ws ?self1 \<noteq> None \<and> is_connected ?self1"
      using sock by simp
    have "send_message dumps send ?self1 ?auth (print ''WebSocket connected'' w) =
            (send sock (dumps ?auth),
             (print ''WebSocket connected'' w)\<lparr>sent := sent w @ [dumps ?auth]\<rparr>)"
      using guard sock by (simp add: send_message_def print_def)
    with tok show ?thesis
      by (simp add: on_open_def Let_def)
  qed
  have without_token: "on_open dumps send self w =
        (None, ?self1, print ''WebSocket connected'' w)"
    if "\<not> truthy (client_token self)"
    using that by (simp add: on_open_def Let_def)
  from with_token without_token show ?thesis by blast
qed

theorem on_open_auth_witness:
  \<open>truthy (client_token (example_client\<lparr>ws := Some 0\<rparr>))
   \<and> ws (example_client\<lparr>ws := Some 0\<rparr>) = Some 0
   \<and> on_open example_dumps example_send (example_client\<lparr>ws := Some 0\<rparr>) world0 =
       (None, example_client\<lparr>ws := Some 0, is_connected := True\<rparr>,
        world0\<lparr>stdout := [''WebSocket connected''],
               sent := [''{"type": "auth", "token": "abc"}'']\<rparr>)
   \<and> \<not> truthy (client_token (example_client\<lparr>client_token := JStr ''''\<rparr>))
   \<and> on_open example_dumps example_send (example_client\<lparr>client_token := JStr ''''\<rparr>) world0 =
       (None, example_client\<lparr>client_token := JStr '''', is_connected := True\<rparr>,
        world0\<lparr>stdout := [''WebSocket connected'']\<rparr>)\<close>
  using on_open_auth [of "example_client\<lparr>ws := Some 0\<rparr>" 0 example_dumps example_send world0]
    on_open_auth [of "example_client\<lparr>client_token := JStr ''''\<rparr>" 0 example_dumps example_send
        world0]
  by (simp add: example_client_def on_message_def WebSocketClient_init_def example_dumps_def
      example_send_def print_def world0_def)

text \<open>
  The claim as stated fails for a client without a token: the connection opens, the socket
  exists, and \<^verbatim>\<open>on_open\<close> sends nothing.
\<close>

theorem on_open_without_token_counterexample:
  "on_open example_dumps example_send
     ((WebSocketClient_init ''ws://localhost:3001/ws'' JNull)\<lparr>ws := Some (0::nat)\<rparr>) world0 =
     (None,
      (WebSocketClient_init ''ws://localhost:3001/ws'' JNull)\<lparr>ws := Some 0, is_connected := True\<rparr>,
      world0\<lparr>stdout := [''WebSocket connected''], sent := []\<rparr>)"
  by (simp add: on_open_def WebSocketClient_init_def Let_def print_def world0_def)

text \<open>
  C7 (as amended). For every channel string, when the socket object exists and
  \<^verbatim>\<open>is_connected\<close> is true, \<^verbatim>\<open>subscribe\<close> sends exactly one message: a dictionary
  whose \<^verbatim>\<open>type\<close> is \<^verbatim>\<open>'subscribe'\<close> and whose \<^verbatim>\<open>channel\<close> is the given channel,
  with a \<^verbatim>\<open>coinId\<close> field, holding the argument, if and only if a truthy
  \<^verbatim>\<open>coin_id\<close> is given. Otherwise it sends nothing and prints
  \<^verbatim>\<open>WebSocket not connected\<close>.
\<close>

theorem subscribe_message:
  "(ws self \<noteq> None \<and> is_connected self \<longrightarrow>
      (\<exists>m. subscribe dumps send self channel coin_id w =
              (send (the (ws self)) (dumps (JObj m)), w\<lparr>sent := sent w @ [dumps (JObj m)]\<rparr>)
          \<and> map_of m ''type'' = Some (JStr ''subscribe'')
          \<and> map_of m ''channel'' = Some (JStr channel)
          \<and> (map_of m ''coinId'' \<noteq> None) = truthy coin_id
          \<and> map_of m ''coinId'' = (if truthy coin_id then Some coin_id else None)
          \<and> map fst m = [''type'', ''channel''] @ (if truthy coin_id then [''coinId''] else [])))
   \<and> (\<not> (ws self \<noteq> None \<and> is_connected self) \<longrightarrow>
      subscribe dumps send self channel coin_id w = (None, print ''WebSocket not connected'' w))"
proof (cases "truthy coin_id")
  case True
  then show ?thesis
    by (auto simp: subscribe_def send_message_def Let_def
        intro!: exI [of _ "[(''type'', JStr ''subscribe''), (''channel'', JStr channel),
                            (''coinId'', coin_id)]"])
next
  case False
  then show ?thesis
    by (auto simp: subscribe_def send_message_def Let_def
        intro!: exI [of _ "[(''type'', JStr ''subscribe''), (''channel'', JStr channel)]"])
qed

theorem subscribe_message_witness:
  \<open>ws (example_client\<lparr>ws := Some 0, is_connected := True\<rparr>) \<noteq> None
   \<and> is_connected (example_client\<lparr>ws := Some 0, is_connected := True\<rparr>)
   \<and> subscribe example_dumps example_send (example_client\<lparr>ws := Some 0, is_connected := True\<rparr>)
        ''price_updates'' (JStr ''1'') world0 =
       (None, world0\<lparr>sent :=
          [''{"type": "subscribe", "channel": "price_updates", "coinId": "1"}'']\<rparr>)
   \<and> subscribe example_dumps example_send (example_client\<lparr>ws := Some 0, is_connected := True\<rparr>)
        ''price_updates'' JNull world0 =
       (None, world0\<lparr>sent := [''{"type": "subscribe", "channel": "price_updates"}'']\<rparr>)
   \<and> \<not> is_connected example_client
   \<and> subscribe example_dumps example_send example_client ''price_updates'' (JStr ''1'') world0 =
       (None, world0\<lparr>stdout := [''WebSocket not connected'']\<rparr>)\<close>
  using subscribe_message [of "example_client\<lparr>ws := Some 0, is_connected := True\<rparr>"
        example_dumps example_send "''price_updates''" "JStr ''1''" world0]
    subscribe_message [of "example_client\<lparr>ws := Some 0, is_connected := True\<rparr>"
        example_dumps example_send "''price_updates''" JNull world0]
    subscribe_message [of example_client example_dumps example_send "''price_updates''"
        "JStr ''1''" world0]
  by (simp add: example_client_def on_message_def WebSocketClient_init_def example_dumps_def
      example_send_def subscribe_def send_message_def print_def world0_def)

text \<open>
  The claim as stated fails for a client that is not connected: \<^verbatim>\<open>subscribe\<close> sends
  no message at all.
\<close>

theorem subscribe_disconnected_counterexample:
  "subscribe example_dumps example_send example_client ''price_updates'' (JStr ''1'') world0 =
     (None, world0\<lparr>stdout := [''WebSocket not connected''], sent := []\<rparr>)"
  by (simp add: subscribe_def send_message_def example_client_def on_message_def
      WebSocketClient_init_def Let_def print_def world0_def)

section \<open>Properties of login and registration\<close>

text \<open>
  C10 (as amended). When the response of \<^verbatim>\<open>login\<close> or \<^verbatim>\<open>register\<close> is a dictionary
  with a truthy \<^verbatim>\<open>success\<close> and a \<^verbatim>\<open>data\<close> key whose value is a dictionary with
  a \<^verbatim>\<open>token\<close> entry, the method stores that token (\<^verbatim>\<open>self.token\<close> and the
  Authorization header) and returns the response unmodified. When \<^verbatim>\<open>success\<close> is
  falsy or absent, or \<^verbatim>\<open>data\<close> is absent, it leaves the client as it was and returns
  the response unmodified. In every case the client is either unchanged or holds the token
  found under \<^verbatim>\<open>data\<close> in a response dictionary with a truthy \<^verbatim>\<open>success\<close>,
  and that response is what the method returned.
\<close>

theorem login_register_store_token:
  "(make_request request self ''POST'' ''/api/v1/auth/login''
        (json_kwarg (JObj [(''email'', JStr email), (''password'', JStr password)])) w =
        (Inr (JObj kvs), w1) \<and>
      truthy (dict_get kvs ''success'') \<and> map_of kvs ''data'' = Some (JObj d) \<and>
      map_of d ''token'' = Some tok \<longrightarrow>
    login request fmt self email password w = (Inr (JObj kvs), set_token fmt self tok, w1))
   \<and> (make_request request self ''POST'' ''/api/v1/auth/login''
        (json_kwarg (JObj [(''email'', JStr email), (''password'', JStr password)])) w =
        (Inr (JObj kvs), w1) \<and>
      (\<not> truthy (dict_get kvs ''success'') \<or> map_of kvs ''data'' = None) \<longrightarrow>
    login request fmt self email password w = (Inr (JObj kvs), self, w1))
   \<and> (fst (snd (login request fmt self email password w)) = self \<or>
       (\<exists>kvs' w' d' tok'. make_request request self ''POST'' ''/api/v1/auth/login''
          (json_kwarg (JObj [(''email'', JStr email), (''password'', JStr password)])) w =
          (Inr (JObj kvs'), w') \<and>
        truthy (dict_get kvs' ''success'') \<and> map_of kvs' ''data'' = Some (JObj d') \<and>
        map_of d' ''token'' = Some tok' \<and>
        login request fmt self email password w =
          (Inr (JObj kvs'), set_token fmt self tok', w')))
   \<and> (make_request request self ''POST'' ''/api/v1/auth/register'' (json_kwarg user_data) w =
        (Inr (JObj kvs), w1) \<and>
      truthy (dict_get kvs ''success'') \<and> map_of kvs ''data'' = Some (JObj d) \<and>
      map_of d ''token'' = Some tok \<longrightarrow>
    register request fmt self user_data w = (Inr (JObj kvs), set_token fmt self tok, w1))
   \<and> (make_request request self ''POST'' ''/api/v1/auth/register'' (json_kwarg user_data) w =
        (Inr (JObj kvs), w1) \<and>
      (\<not> truthy (dict_get kvs ''success'') \<or> map_of kvs ''data'' = None) \<longrightarrow>
    register request fmt self user_data w = (Inr (JObj kvs), self, w1))
   \<and> (fst (snd (register request fmt self user_data w)) = self \<or>
       (\<exists>kvs' w' d' tok'. make_request request self ''POST'' ''/api/v1/auth/register''
          (json_kwarg user_data) w = (Inr (JObj kvs'), w') \<and>
        truthy (dict_get kvs' ''success'') \<and> map_of kvs' ''data'' = Some (JObj d') \<and>
        map_of d' ''token'' = Some tok' \<and>
        register request fmt self user_data w =
          (Inr (JObj kvs'), set_token fmt self tok', w')))"
proof -
  have l1: "login request fmt self email password w = (Inr (JObj kvs), set_token fmt self tok, w1)"
    if "make_request request self ''POST'' ''/api/v1/auth/login''
          (json_kwarg (JObj [(''email'', JStr email), (''password'', JStr password)])) w =
          (Inr (JObj kvs), w1)"
      "truthy (dict_get kvs ''success'')" "map_of kvs ''data'' = Some (JObj d)"
      "map_of d ''token'' = Some tok"
    using that by (simp add: login_def)
  have l2: "login request fmt self email password w = (Inr (JObj kvs), self, w1)"
    if "make_request request self ''POST'' ''/api/v1/auth/login''
          (json_kwarg (JObj [(''email'', JStr email), (''password'', JStr password)])) w =
          (Inr (JObj kvs), w1)"
      "\<not> truthy (dict_get kvs ''success'') \<or> map_of kvs ''data'' = None"
    using that by (auto simp: login_def)
  have l3: "fst (snd (login request fmt self email password w)) = self \<or>
       (\<exists>kvs' w' d' tok'. make_request request self ''POST'' ''/api/v1/auth/login''
          (json_kwarg (JObj [(''email'', JStr email), (''password'', JStr password)])) w =
          (Inr (JObj kvs'), w') \<and>
        truthy (dict_get kvs' ''success'') \<and> map_of kvs' ''data'' = Some (JObj d') \<and>
        map_of d' ''token'' = Some tok' \<and>
        login request fmt self email password w =
          (Inr (JObj kvs'), set_token fmt self tok', w'))"
    by (auto simp: login_def split: prod.splits sum.splits json.splits option.splits
        dest!: subscript_InrD)
  have r1: "register request fmt self user_data w = (Inr (JObj kvs), set_token fmt self tok, w1)"
    if "make_request request self ''POST'' ''/api/v1/auth/register'' (json_kwarg user_data) w =
          (Inr (JObj kvs), w1)"
      "truthy (dict_get kvs ''success'')" "map_of kvs ''data'' = Some (JObj d)"
      "map_of d ''token'' = Some tok"
    using that by (simp add: register_def)
  have r2: "register request fmt self user_data w = (Inr (JObj kvs), self, w1)"
    if "make_request request self ''POST'' ''/api/v1/auth/register'' (json_kwarg user_data) w =
          (Inr (JObj kvs), w1)"
      "\<not> truthy (dict_get kvs ''success'') \<or> map_of kvs ''data'' = None"
    using that by (auto simp: register_def)
  have r3: "fst (snd (register request fmt self user_data w)) = self \<or>
       (\<exists>kvs' w' d' tok'. make_request request self ''POST'' ''/api/v1/auth/register''
          (json_kwarg user_data) w = (Inr (JObj kvs'), w') \<and>
        truthy (dict_get kvs' ''success'') \<and> map_of kvs' ''data'' = Some (JObj d') \<and>
        map_of d' ''token'' = Some tok' \<and>
        register request fmt self user_data w =
          (Inr (JObj kvs'), set_token fmt self tok', w'))"
    by (auto simp: register_def split: prod.splits sum.splits json.splits option.splits
        dest!: subscript_InrD)
  from l1 l2 l3 r1 r2 r3 show ?thesis by blast
qed

theorem login_register_store_token_witness:
  "login server_login_token example_repr example_api ''user@example.com'' ''password123'' world0 =
     (Inr (JObj [(''success'', JBool True), (''data'', JObj [(''token'', JStr ''abc'')])]),
      set_token example_repr example_api (JStr ''abc''),
      world0\<lparr>requested := [(''POST'', ''http://localhost:3001/api/v1/auth/login'',
          headers (session example_api))]\<rparr>)
   \<and> login server_login_refused example_repr example_api ''user@example.com'' ''wrong'' world0 =
     (Inr (JObj [(''success'', JBool False)]), example_api,
      world0\<lparr>requested := [(''POST'', ''http://localhost:3001/api/v1/auth/login'',
          headers (session example_api))]\<rparr>)
   \<and> register server_login_token example_repr example_api
        (JObj [(''email'', JStr ''user@example.com'')]) world0 =
     (Inr (JObj [(''success'', JBool True), (''data'', JObj [(''token'', JStr ''abc'')])]),
      set_token example_repr example_api (JStr ''abc''),
      world0\<lparr>requested := [(''POST'', ''http://localhost:3001/api/v1/auth/register'',
          headers (session example_api))]\<rparr>)
   \<and> register server_login_refused example_repr example_api
        (JObj [(''email'', JStr ''user@example.com'')]) world0 =
     (Inr (JObj [(''success'', JBool False)]), example_api,
      world0\<lparr>requested := [(''POST'', ''http://localhost:3001/api/v1/auth/register'',
          headers (session example_api))]\<rparr>)"
  using login_register_store_token [of server_login_token example_api "''user@example.com''"
        "''password123''" world0
        "[(''success'', JBool True), (''data'', JObj [(''token'', JStr ''abc'')])]"
        "world0\<lparr>requested := [(''POST'', ''http://localhost:3001/api/v1/auth/login'',
          headers (session example_api))]\<rparr>"
        "[(''token'', JStr ''abc'')]" "JStr ''abc''" example_repr
        "JObj [(''email'', JStr ''user@example.com'')]"]
    login_register_store_token [of server_login_refused example_api "''user@example.com''"
        "''wrong''" world0 "[(''success'', JBool False)]"
        "world0\<lparr>requested := [(''POST'', ''http://localhost:3001/api/v1/auth/login'',
          headers (session example_api))]\<rparr>"
        "[]" JNull example_repr "JObj [(''email'', JStr ''user@example.com'')]"]
  by (simp add: login_def register_def make_request_def try_request_def raise_for_status_def
      server_login_token_def server_login_refused_def dict_get_def Let_def world0_def
      example_api_def init_def APIConfig_default_def)

text \<open>
  The claim as stated fails when the response has a truthy \<^verbatim>\<open>success\<close> and a
  \<^verbatim>\<open>data\<close> key but no token under it: the lookup of \<^verbatim>\<open>'token'\<close> raises
  \<open>KeyError\<close>, no token is stored and the response is not returned.
\<close>

theorem login_without_token_counterexample:
  "fst (make_request server_login_no_token example_api ''POST'' ''/api/v1/auth/login''
          (json_kwarg (JObj [(''email'', JStr ''user@example.com''),
                             (''password'', JStr ''password123'')])) world0) =
     Inr (JObj [(''success'', JBool True), (''data'', JObj [])])
   \<and> truthy (dict_get [(''success'', JBool True), (''data'', JObj [])] ''success'')
   \<and> map_of [(''success'', JBool True), (''data'', JObj [])] ''data'' = Some (JObj [])
   \<and> fst (login server_login_no_token example_repr example_api ''user@example.com''
            ''password123'' world0) = Inl (KeyError ''token'')
   \<and> fst (snd (login server_login_no_token example_repr example_api ''user@example.com''
            ''password123'' world0)) = example_api"
  by (simp add: login_def make_request_def try_request_def raise_for_status_def
      server_login_no_token_def dict_get_def Let_def)

section \<open>Properties of the retry loop\<close>

text \<open>
  The loop from attempt \<open>j + 1\<close> on, after \<open>j\<close> calls: when the calls \<open>j\<close> to
  \<open>k - 1\<close> fail, the sleeps after them return, and call \<open>k\<close> succeeds or is the last
  attempt, the loop ends at call \<open>k\<close> with its outcome, having slept once per failure.
\<close>

lemma retry_loop_run:
  assumes "j \<le> k" "k < n"
    and "\<forall>i. j \<le> i \<and> i < k \<longrightarrow> isl (func i)"
    and "\<forall>i. j \<le> i \<and> i < k \<longrightarrow> sleep (base_delay * 2 ^ i) = None"
    and "\<not> isl (func k) \<or> Suc k = n"
  shows "fst (retry_loop func sleep (int n) base_delay [int j + 1..int n] j w) =
           (case func k of Inl e \<Rightarrow> Inl e | Inr v \<Rightarrow> Inr (Some v))
       \<and> fst (snd (retry_loop func sleep (int n) base_delay [int j + 1..int n] j w)) = Suc k
       \<and> slept (snd (snd (retry_loop func sleep (int n) base_delay [int j + 1..int n] j w))) =
           slept w @ map (\<lambda>i. base_delay * 2 ^ i) [j..<k]"
  using assms
proof (induction "k - j" arbitrary: j w)
  case 0
  then have jk: "j = k" by simp
  have up: "[int k + 1..int n] = (int k + 1) # [int k + 1 + 1..int n]"
    using \<open>k < n\<close> by (simp add: upto_rec1)
  show ?case
    using "0.prems"(5) unfolding jk up
    by (cases "func k") (auto simp: Let_def)
next
  case (Suc d)
  then have lt: "j < k" by simp
  have up: "[int j + 1..int n] = (int j + 1) # [int (Suc j) + 1..int n]"
    using lt \<open>k < n\<close> by (simp add: upto_rec1 add.commute)
  from Suc.prems lt obtain e where fj: "func j = Inl e"
    by (cases "func j") auto
  have sl: "sleep (base_delay * 2 ^ j) = None" using Suc.prems lt by simp
  have ne: "int j + 1 \<noteq> int n" using lt \<open>k < n\<close> by simp
  have d: "d = k - Suc j" using Suc.hyps by simp
  have IH: "\<And>w. fst (retry_loop func sleep (int n) base_delay [int (Suc j) + 1..int n] (Suc j) w) =
           (case func k of Inl e \<Rightarrow> Inl e | Inr v \<Rightarrow> Inr (Some v))
       \<and> fst (snd (retry_loop func sleep (int n) base_delay [int (Suc j) + 1..int n] (Suc j) w)) = Suc k
       \<and> slept (snd (snd (retry_loop func sleep (int n) base_delay [int (Suc j) + 1..int n] (Suc j) w))) =
           slept w @ map (\<lambda>i. base_delay * 2 ^ i) [Suc j..<k]"
    using Suc.hyps(1)[OF d] Suc.prems lt by simp
  show ?case
    unfolding up using fj sl ne IH lt
    by (simp add: Let_def print_def upt_conv_Cons del: of_nat_Suc)
qed

lemma retry_with_backoff_run:
  assumes "1 \<le> max_retries" "k < nat max_retries"
    and "\<forall>i<k. isl (func i)"
    and "\<forall>i<k. sleep (base_delay * 2 ^ i) = None"
    and "\<not> isl (func k) \<or> Suc k = nat max_retries"
  shows "fst (retry_with_backoff func sleep max_retries base_delay w) =
           (case func k of Inl e \<Rightarrow> Inl e | Inr v \<Rightarrow> Inr (Some v))
       \<and> fst (snd (retry_with_backoff func sleep max_retries base_delay w)) = Suc k
       \<and> slept (snd (snd (retry_with_backoff func sleep max_retries base_delay w))) =
           slept w @ map (\<lambda>i. base_delay * 2 ^ i) [0..<k]"
proof -
  have m: "max_retries = int (nat max_retries)" using assms(1) by simp
  have "fst (retry_loop func sleep (int (nat max_retries)) base_delay
              [int 0 + 1..int (nat max_retries)] 0 w) =
           (case func k of Inl e \<Rightarrow> Inl e | Inr v \<Rightarrow> Inr (Some v))
       \<and> fst (snd (retry_loop func sleep (int (nat max_retries)) base_delay
              [int 0 + 1..int (nat max_retries)] 0 w)) = Suc k
       \<and> slept (snd (snd (retry_loop func sleep (int (nat max_retries)) base_delay
              [int 0 + 1..int (nat max_retries)] 0 w))) =
           slept w @ map (\<lambda>i. base_delay * 2 ^ i) [0..<k]"
    by (rule retry_loop_run) (use assms in auto)
  then show ?thesis
    using m by (simp add: retry_with_backoff_def)
qed

text \<open>
  C4 (as amended). For every \<^verbatim>\<open>func\<close>, \<^verbatim>\<open>max_retries >= 1\<close> and
  \<^verbatim>\<open>base_delay\<close> whose delays \<^verbatim>\<open>time.sleep\<close> accepts, \<^verbatim>\<open>retry_with_backoff\<close>
  calls \<^verbatim>\<open>func\<close> at least once and at most \<^verbatim>\<open>max_retries\<close> times. If call
  \<open>k\<close> (from 0) is the first to succeed and \<open>k < max_retries\<close>, it returns that result
  after \<open>k + 1\<close> calls, having slept \<^verbatim>\<open>base_delay * 2^(attempt - 1)\<close> after each of
  the \<open>k\<close> failed attempts, so that each delay is twice the one before. If all
  \<^verbatim>\<open>max_retries\<close> calls fail, it raises the exception of the last one, having slept
  after every attempt but the last.
\<close>

theorem retry_with_backoff_behaviour:
  assumes "1 \<le> max_retries"
    and "\<forall>i. Suc i < nat max_retries \<longrightarrow> sleep (base_delay * 2 ^ i) = None"
  shows "1 \<le> fst (snd (retry_with_backoff func sleep max_retries base_delay w))
       \<and> fst (snd (retry_with_backoff func sleep max_retries base_delay w)) \<le> nat max_retries
       \<and> (k < nat max_retries \<and> (\<forall>i<k. isl (func i)) \<and> func k = Inr v \<longrightarrow>
            fst (retry_with_backoff func sleep max_retries base_delay w) = Inr (Some v)
          \<and> fst (snd (retry_with_backoff func sleep max_retries base_delay w)) = Suc k
          \<and> slept (snd (snd (retry_with_backoff func sleep max_retries base_delay w))) =
              slept w @ map (\<lambda>i. base_delay * 2 ^ i) [0..<k])
       \<and> ((\<forall>i<nat max_retries. isl (func i)) \<longrightarrow>
            fst (retry_with_backoff func sleep max_retries base_delay w) =
              Inl (projl (func (nat max_retries - 1)))
          \<and> fst (snd (retry_with_backoff func sleep max_retries base_delay w)) = nat max_retries
          \<and> slept (snd (snd (retry_with_backoff func sleep max_retries base_delay w))) =
              slept w @ map (\<lambda>i. base_delay * 2 ^ i) [0..<nat max_retries - 1])"
proof -
  let ?n = "nat max_retries"
  let ?R = "retry_with_backoff func sleep max_retries base_delay w"
  have n: "0 < ?n" using assms(1) by simp
  have success: "fst ?R = Inr (Some v') \<and> fst (snd ?R) = Suc k'
        \<and> slept (snd (snd ?R)) = slept w @ map (\<lambda>i. base_delay * 2 ^ i) [0..<k']"
    if "k' < ?n" "\<forall>i<k'. isl (func i)" "func k' = Inr v'" for k' v'
  proof -
    have "\<forall>i<k'. sleep (base_delay * 2 ^ i) = None"
      using assms(2) that(1) by auto
    from retry_with_backoff_run [OF assms(1) that(1) that(2) this, of w] that(3)
    show ?thesis by simp
  qed
  have failure: "fst ?R = Inl (projl (func (?n - 1))) \<and> fst (snd ?R) = ?n
        \<and> slept (snd (snd ?R)) = slept w @ map (\<lambda>i. base_delay * 2 ^ i) [0..<?n - 1]"
    if all: "\<forall>i<?n. isl (func i)"
  proof -
    have k: "?n - 1 < ?n" using n by simp
    have f: "\<forall>i<?n - 1. isl (func i)" using all by auto
    have s: "\<forall>i<?n - 1. sleep (base_delay * 2 ^ i) = None" using assms(2) by auto
    have l: "\<not> isl (func (?n - 1)) \<or> Suc (?n - 1) = ?n" using n by simp
    have "isl (func (?n - 1))" using all k by blast
    then obtain e where e: "func (?n - 1) = Inl e" by (cases "func (?n - 1)") auto
    from retry_with_backoff_run [OF assms(1) k f s l, of w] e n
    show ?thesis by simp
  qed
  have bounds: "1 \<le> fst (snd ?R) \<and> fst (snd ?R) \<le> ?n"
  proof (cases "\<forall>i<?n. isl (func i)")
    case True
    from failure [OF True] n show ?thesis by simp
  next
    case False
    then have ex: "\<exists>i. i < ?n \<and> \<not> isl (func i)" by blast
    define k' where "k' = (LEAST i. i < ?n \<and> \<not> isl (func i))"
    have kp: "k' < ?n \<and> \<not> isl (func k')"
      unfolding k'_def using ex by (rule LeastI_ex)
    have first: "\<forall>i<k'. isl (func i)"
    proof (intro allI impI)
      fix i assume "i < k'"
      then have "\<not> (i < ?n \<and> \<not> isl (func i))"
        unfolding k'_def by (rule not_less_Least)
      with \<open>i < k'\<close> kp show "isl (func i)" by simp
    qed
    from kp obtain v' where "func k' = Inr v'" by (cases "func k'") auto
    from success [OF _ first this] kp show ?thesis by simp
  qed
  from bounds success failure show ?thesis by blast
qed

theorem retry_with_backoff_behaviour_witness:
  "(1::int) \<le> 3
   \<and> time_sleep (1 * 2 ^ 0) = None \<and> time_sleep (1 * 2 ^ 1) = None
   \<and> isl (flaky 0) \<and> isl (flaky 1) \<and> flaky 2 = Inr (JArr [])
   \<and> fst (retry_with_backoff flaky time_sleep 3 1 world0) = Inr (Some (JArr []))
   \<and> fst (snd (retry_with_backoff flaky time_sleep 3 1 world0)) = 3
   \<and> slept (snd (snd (retry_with_backoff flaky time_sleep 3 1 world0))) = [1, 2]
   \<and> fst (retry_with_backoff always_failing time_sleep 3 1 world0) =
       Inl (RequestException ''Connection refused'')
   \<and> fst (snd (retry_with_backoff always_failing time_sleep 3 1 world0)) = 3
   \<and> slept (snd (snd (retry_with_backoff always_failing time_sleep 3 1 world0))) = [1, 2]"
proof -
  have one: "(1::int) \<le> 3" by simp
  have sleeps: "\<forall>i. Suc i < nat 3 \<longrightarrow> time_sleep (1 * 2 ^ i) = None"
    by (simp add: time_sleep_def)
  have flaky: "isl (flaky 0) \<and> isl (flaky 1) \<and> flaky 2 = Inr (JArr [])"
    by (simp add: flaky_def)
  then have pre: "\<forall>i<2. isl (flaky i)"
    by (simp add: less_Suc_eq numeral_2_eq_2)
  have failing: "\<forall>i<nat 3. isl (always_failing i)"
    by (simp add: always_failing_def)
  have upt: "[0..<2] = [0, Suc 0]" by (simp add: numeral_2_eq_2)
  have upt': "[0..<nat 3 - 1] = [0, Suc 0]" by (simp add: numeral_3_eq_3)
  from retry_with_backoff_behaviour [OF one sleeps, of flaky world0 2 "JArr []"] flaky pre
  have a: "fst (retry_with_backoff flaky time_sleep 3 1 world0) = Inr (Some (JArr []))
       \<and> fst (snd (retry_with_backoff flaky time_sleep 3 1 world0)) = 3
       \<and> slept (snd (snd (retry_with_backoff flaky time_sleep 3 1 world0))) = [1, 2]"
    by (simp add: upt world0_def)
  from retry_with_backoff_behaviour [OF one sleeps, of always_failing world0 0 "JArr []"] failing
  have b: "fst (retry_with_backoff always_failing time_sleep 3 1 world0) =
         Inl (RequestException ''Connection refused'')
       \<and> fst (snd (retry_with_backoff always_failing time_sleep 3 1 world0)) = 3
       \<and> slept (snd (snd (retry_with_backoff always_failing time_sleep 3 1 world0))) = [1, 2]"
    by (simp add: upt upt' world0_def always_failing_def)
  from one sleeps flaky a b show ?thesis
    by (simp add: time_sleep_def)
qed

text \<open>
  The claim as stated fails for a negative \<^verbatim>\<open>base_delay\<close>: after the first failed
  attempt \<^verbatim>\<open>time.sleep\<close> is given a negative duration and raises \<open>ValueError\<close>,
  which leaves the function; \<^verbatim>\<open>func\<close> is called once, not retried, and the exception
  raised is not that of a call of \<^verbatim>\<open>func\<close>.
\<close>

theorem retry_negative_delay_counterexample:
  "always_failing 0 = Inl (RequestException ''Connection refused'')
   \<and> always_failing 1 = Inl (RequestException ''Connection refused'')
   \<and> retry_with_backoff always_failing time_sleep 2 (- 1) world0 =
       (Inl (ValueError ''sleep length must be non-negative''), 1,
        world0\<lparr>stdout := [''Attempt 1 failed, retrying in -1s...''], slept := [- 1]\<rparr>)"
  by (simp add: retry_with_backoff_def upto_rec1 always_failing_def time_sleep_def Let_def
      print_def str_int_def world0_def)

end
